theory Spec2Isabelle
  imports Main
begin

section \<open>Data model of github-sync\<close>

text \<open>
  The structs of \<^verbatim>\<open>main.go\<close>. A Go pointer field (\<^verbatim>\<open>*SystemdService\<close>,
  \<^verbatim>\<open>*HookConfig\<close>, \<^verbatim>\<open>*GithubRepository\<close>) is an \<open>option\<close>: \<open>None\<close> is the nil
  pointer that \<^verbatim>\<open>encoding/json\<close> leaves when the key is missing or \<^verbatim>\<open>null\<close>.
  Three structs of the source have a field called \<^verbatim>\<open>Name\<close>; the record of
  \<^verbatim>\<open>SystemdService\<close> keeps it, \<^verbatim>\<open>Hook.Name\<close> is \<open>HookName\<close> and
  \<^verbatim>\<open>GithubRepository.Name\<close> is \<open>RepoName\<close>.
\<close>

record SystemdService =
  Name :: string
  Env :: "(string \<times> string) list"
  Start :: string
  User :: string
  Dir :: string

record Repo =
  ID :: string
  Branch :: string
  Install :: string
  Service :: "SystemdService option"

record HookConfig =
  URL :: string
  ContentType :: string

record Hook =
  HookName :: string
  Active :: bool
  Events :: "string list"
  Config :: "HookConfig option"

record GithubRepository =
  RepoName :: string
  FullName :: string

record WebhookRequest =
  Repository :: "GithubRepository option"

section \<open>The outside world\<close>

text \<open>
  A command as \<^verbatim>\<open>exec.Command(name, args...)\<close> builds it, with \<^verbatim>\<open>cmd.Dir\<close>
  (the empty string when the source leaves it unset).
\<close>

record cmd =
  prog :: string
  args :: "string list"
  dir :: string

text \<open>
  What a finished process gives back. \<open>exit_err\<close> is the text of the Go error of
  \<^verbatim>\<open>cmd.Run\<close> or \<^verbatim>\<open>cmd.CombinedOutput\<close> (\<open>None\<close> for a nil error), \<open>stdout\<close> and
  \<open>stderr\<close> are the two streams, \<open>combined\<close> is their interleaving as
  \<^verbatim>\<open>CombinedOutput\<close> captures it.
\<close>

record proc_result =
  exit_err :: "string option"
  stdout :: string
  stderr :: string
  combined :: string

text \<open>
  \<^verbatim>\<open>os.Stat\<close>: an error that \<^verbatim>\<open>errors.Is(err, os.ErrNotExist)\<close> accepts, any other
  error, or a \<^verbatim>\<open>FileInfo\<close> of which the source reads \<^verbatim>\<open>IsDir()\<close> only.
\<close>

datatype stat_result = StatNotExist string | StatError string | StatInfo bool

text \<open>
  An HTTP request as \<^verbatim>\<open>registerHook\<close> builds it: method, URL, the value of the
  \<^verbatim>\<open>Authorization\<close> header and the body (\<open>None\<close> for the nil body of the GET).
\<close>

record http_request =
  Method :: string
  RequestURL :: string
  Authorization :: string
  Body :: "string option"

record http_response =
  StatusCode :: int
  ResponseBody :: string

text \<open>
  Every call that leaves the process is logged as an \<open>action\<close>; the log is the state
  that the model threads through the program. Lines written to the process's own
  standard output (\<^verbatim>\<open>fmt.Println\<close> of a command before it runs) are not logged; the
  line \<^verbatim>\<open>main\<close> prints before it returns is part of its result.
\<close>

datatype action =
    Stat string
  | Open string
  | Exec cmd
  | Http http_request

text \<open>
  The environment of the program. Its first part is the libraries the source calls and
  whose code is not part of the repository: they are parameters, so every theorem holds
  for each behaviour they may have.
  \<^item> \<open>HomeDir\<close> is \<^verbatim>\<open>util.HomeDir()\<close>, \<open>Join\<close> is \<^verbatim>\<open>filepath.Join\<close> of two elements,
    \<open>TrimSpace\<close> is \<^verbatim>\<open>strings.TrimSpace\<close>;
  \<^item> \<open>DecodeRepos\<close>, \<open>DecodeHooks\<close> and \<open>DecodeWebhookRequest\<close> are
    \<^verbatim>\<open>json.NewDecoder(r).Decode(v)\<close> at the three types the source decodes into, from
    the bytes read to the error text or the decoded value; a Go map is the list of
    its entries, each key once, in the order in which \<^verbatim>\<open>range\<close> will visit it;
  \<^item> \<open>Marshal\<close> is \<^verbatim>\<open>json.Marshal\<close> of a \<^verbatim>\<open>Hook\<close>;
  \<^item> \<open>NewRequest\<close> is the error of \<^verbatim>\<open>http.NewRequest(method, url, body)\<close>, if any.

  Its second part is the operating system and the network. Their answer may depend on
  everything done so far, so each takes the log of the actions already performed.
\<close>

record sys =
  HomeDir :: string
  Join :: "string \<Rightarrow> string \<Rightarrow> string"
  TrimSpace :: "string \<Rightarrow> string"
  DecodeRepos :: "string \<Rightarrow> string + (string \<times> Repo) list"
  DecodeHooks :: "string \<Rightarrow> string + Hook list"
  DecodeWebhookRequest :: "string \<Rightarrow> string + WebhookRequest"
  Marshal :: "Hook \<Rightarrow> string + string"
  NewRequest :: "string \<Rightarrow> string \<Rightarrow> string option"
  os_Stat :: "action list \<Rightarrow> string \<Rightarrow> stat_result"
  os_Open :: "action list \<Rightarrow> string \<Rightarrow> string + string"
  Run :: "action list \<Rightarrow> cmd \<Rightarrow> proc_result"
  Do :: "action list \<Rightarrow> http_request \<Rightarrow> string + http_response"

section \<open>Formatting\<close>

definition nl :: string where
  "nl = [CHR 0x0A]"

text \<open>The decimal digits of a natural number, and \<^verbatim>\<open>%d\<close> of a Go integer.\<close>

fun digits :: "nat \<Rightarrow> string" where
  "digits n = (if n < 10 then [''0123456789'' ! n]
               else digits (n div 10) @ [''0123456789'' ! (n mod 10)])"

declare digits.simps [simp del]

definition itoa :: "int \<Rightarrow> string" where
  "itoa i = (if i < 0 then CHR ''-'' # digits (nat (- i)) else digits (nat i))"

text \<open>
  \<^verbatim>\<open>strings.Split(s, sep)\<close> for a separator of one byte: the pieces between the
  occurrences of the separator, one piece more than there are occurrences.
\<close>

primrec Split :: "string \<Rightarrow> char \<Rightarrow> string list" where
  "Split [] sep = [[]]"
| "Split (c # cs) sep =
     (if c = sep then [] # Split cs sep
      else (case Split cs sep of [] \<Rightarrow> [[c]] | p # ps \<Rightarrow> (c # p) # ps))"

section \<open>Git commands\<close>

text \<open>
  The result of a Go function that returns \<^verbatim>\<open>error\<close> is \<open>string option\<close>: \<open>None\<close>
  is \<^verbatim>\<open>nil\<close>, \<open>Some m\<close> an error whose text is \<open>m\<close>. Each function takes the log and
  returns it extended.
\<close>

definition cloneArgs :: "string \<Rightarrow> string \<Rightarrow> string \<Rightarrow> string list" where
  "cloneArgs path gitURL branch =
     [''clone''] @ (if branch \<noteq> [] then [''--branch'', branch, ''--single-branch''] else [])
       @ [gitURL, path]"

definition cloneCmd :: "string \<Rightarrow> string \<Rightarrow> string \<Rightarrow> cmd" where
  "cloneCmd path gitURL branch =
     \<lparr>prog = ''git'', args = cloneArgs path gitURL branch, dir = []\<rparr>"

definition clone :: "sys \<Rightarrow> action list \<Rightarrow> string \<Rightarrow> string \<Rightarrow> string \<Rightarrow> string option \<times> action list" where
  "clone s tr path gitURL branch =
     (let c = cloneCmd path gitURL branch; r = Run s tr c; tr' = tr @ [Exec c]
      in case exit_err r of
           Some e \<Rightarrow> (Some (''git clone failed: '' @ e @ nl @ combined r), tr')
         | None \<Rightarrow> (None, tr'))"

definition getBranchCmd :: "string \<Rightarrow> cmd" where
  "getBranchCmd path =
     \<lparr>prog = ''git'', args = [''-C'', path, ''rev-parse'', ''--abbrev-ref'', ''HEAD''], dir = []\<rparr>"

definition getBranch :: "sys \<Rightarrow> action list \<Rightarrow> string \<Rightarrow> (string + string) \<times> action list" where
  "getBranch s tr path =
     (let c = getBranchCmd path; r = Run s tr c; tr' = tr @ [Exec c]
      in case exit_err r of
           Some e \<Rightarrow> (Inl (stderr r), tr')
         | None \<Rightarrow> (Inr (TrimSpace s (stdout r)), tr'))"

definition pullCmd :: "string \<Rightarrow> cmd" where
  "pullCmd path = \<lparr>prog = ''git'', args = [''pull''], dir = path\<rparr>"

definition pull :: "sys \<Rightarrow> action list \<Rightarrow> string \<Rightarrow> string option \<times> action list" where
  "pull s tr path =
     (let c = pullCmd path; r = Run s tr c; tr' = tr @ [Exec c]
      in case exit_err r of
           Some e \<Rightarrow> (Some (e @ '': '' @ TrimSpace s (combined r)), tr')
         | None \<Rightarrow> (None, tr'))"

section \<open>Configuration\<close>

definition readConfig :: "sys \<Rightarrow> action list \<Rightarrow> string \<Rightarrow> (string + (string \<times> Repo) list) \<times> action list" where
  "readConfig s tr path =
     (case os_Open s tr path of
        Inl e \<Rightarrow> (Inl e, tr @ [Open path])
      | Inr content \<Rightarrow>
          (case DecodeRepos s content of
             Inl e \<Rightarrow> (Inl e, tr @ [Open path])
           | Inr repos \<Rightarrow> (Inr repos, tr @ [Open path])))"

definition configFile :: "sys \<Rightarrow> string" where
  "configFile s = Join s (HomeDir s) ''repos.json''"

section \<open>Webhook registration\<close>

text \<open>
  A Go function that returns \<^verbatim>\<open>error\<close> and may also panic ends in one of three ways.
\<close>

datatype ret = Success | Failure string | Panic string

definition nilDeref :: string where
  "nilDeref = ''runtime error: invalid memory address or nil pointer dereference''"

text \<open>\<^verbatim>\<open>includes\<close> of the source; the bare name is reserved in Isabelle.\<close>

primrec includes' :: "string list \<Rightarrow> string \<Rightarrow> bool" where
  "includes' [] s = False"
| "includes' (item # list) s = (if item = s then True else includes' list s)"

text \<open>
  The loop over the hooks that \<^verbatim>\<open>registerHook\<close> has read. The condition reads
  \<^verbatim>\<open>hook.Config.URL\<close> first, so a hook whose \<^verbatim>\<open>Config\<close> is nil panics there, before a
  later hook is looked at.
\<close>

datatype scan = Registered | Missing | NilConfig

primrec scanHooks :: "string \<Rightarrow> Hook list \<Rightarrow> scan" where
  "scanHooks webhookURL [] = Missing"
| "scanHooks webhookURL (hook # hooks) =
     (case Config hook of
        None \<Rightarrow> NilConfig
      | Some c \<Rightarrow>
          if URL c = webhookURL \<and> Active hook \<and> includes' (Events hook) ''push''
               \<and> ContentType c = ''json''
          then Registered
          else scanHooks webhookURL hooks)"


definition apiURL :: "string \<Rightarrow> string" where
  "apiURL repoID = ''https://api.github.com/repos/'' @ repoID @ ''/hooks''"

definition listRequest :: "string \<Rightarrow> string \<Rightarrow> http_request" where
  "listRequest ghToken repoID =
     \<lparr>Method = ''GET'', RequestURL = apiURL repoID, Authorization = ''token '' @ ghToken, Body = None\<rparr>"

definition newHook :: "string \<Rightarrow> Hook" where
  "newHook webhookURL =
     \<lparr>HookName = ''web'', Active = True, Events = [''push''],
      Config = Some \<lparr>URL = webhookURL, ContentType = ''json''\<rparr>\<rparr>"

definition createRequest :: "string \<Rightarrow> string \<Rightarrow> string \<Rightarrow> http_request" where
  "createRequest ghToken repoID payload =
     \<lparr>Method = ''POST'', RequestURL = apiURL repoID, Authorization = ''token '' @ ghToken,
      Body = Some payload\<rparr>"

text \<open>The second half of \<^verbatim>\<open>registerHook\<close>, from the comment \<^verbatim>\<open>// Create the hook\<close> on.\<close>

definition createHook :: "sys \<Rightarrow> action list \<Rightarrow> string \<Rightarrow> string \<Rightarrow> string \<Rightarrow> ret \<times> action list" where
  "createHook s tr ghToken repoID webhookURL =
     (case Marshal s (newHook webhookURL) of
        Inl e \<Rightarrow> (Panic e, tr)
      | Inr payload \<Rightarrow>
          (case NewRequest s ''POST'' (apiURL repoID) of
             Some e \<Rightarrow> (Panic e, tr)
           | None \<Rightarrow>
               (let req = createRequest ghToken repoID payload
                in case Do s tr req of
                     Inl e \<Rightarrow> (Failure e, tr @ [Http req])
                   | Inr res \<Rightarrow>
                       if StatusCode res \<noteq> 201
                       then (Failure (itoa (StatusCode res) @ '': ''
                                        @ TrimSpace s (ResponseBody res)), tr @ [Http req])
                       else (Success, tr @ [Http req]))))"

definition registerHook :: "sys \<Rightarrow> action list \<Rightarrow> string \<Rightarrow> string \<Rightarrow> string \<Rightarrow> ret \<times> action list" where
  "registerHook s tr ghToken repoID webhookURL =
     (case NewRequest s ''GET'' (apiURL repoID) of
        Some e \<Rightarrow> (Panic e, tr)
      | None \<Rightarrow>
          (let req = listRequest ghToken repoID
           in case Do s tr req of
                Inl e \<Rightarrow> (Failure e, tr @ [Http req])
              | Inr res \<Rightarrow>
                  (case DecodeHooks s (ResponseBody res) of
                     Inl e \<Rightarrow> (Panic e, tr @ [Http req])
                   | Inr hooks \<Rightarrow>
                       (case scanHooks webhookURL hooks of
                          NilConfig \<Rightarrow> (Panic nilDeref, tr @ [Http req])
                        | Registered \<Rightarrow> (Success, tr @ [Http req])
                        | Missing \<Rightarrow>
                            createHook s (tr @ [Http req]) ghToken repoID webhookURL))))"

section \<open>Startup reconciliation\<close>

text \<open>
  How \<^verbatim>\<open>main\<close> ends: it prints a line and returns, it panics, or it reaches
  \<^verbatim>\<open>http.ListenAndServe\<close> on an address and serves from then on.
\<close>

datatype exit = Exit string | Crash string | Listen string

text \<open>
  The body of the loop of \<^verbatim>\<open>main\<close> for one entry of the configuration: \<open>None\<close> when the
  loop goes on to the next entry.
\<close>

definition reconcileRepo :: "sys \<Rightarrow> action list \<Rightarrow> string \<Rightarrow> string \<Rightarrow> string \<times> Repo \<Rightarrow> exit option \<times> action list" where
  "reconcileRepo s tr token webhookURL entry =
     (let id = fst entry; repo = snd entry
      in case Split id CHR ''/'' of
           [] \<Rightarrow> (Some (Crash ''index out of range''), tr)
         | [p] \<Rightarrow> (Some (Crash ''index out of range''), tr)
         | p # name # ps \<Rightarrow>
            (let path = Join s (HomeDir s) name;
                 tr1 = tr @ [Stat path];
                 checked =
                   (case os_Stat s tr path of
                      StatNotExist e \<Rightarrow> (Some (Exit (e @ nl)), tr1)
                    | StatError e \<Rightarrow>
                        (let gitURL = ''https://github.com/'' @ id @ ''.git''
                         in case clone s tr1 path gitURL (Branch repo) of
                              (Some e', tr2) \<Rightarrow>
                                (Some (Exit (''Error cloning '' @ id @ '': '' @ e' @ nl)), tr2)
                            | (None, tr2) \<Rightarrow> (None, tr2))
                    | StatInfo isDir \<Rightarrow>
                        if \<not> isDir then (Some (Exit (''Error: '' @ path @ '' is file'' @ nl)), tr1)
                        else
                          (case getBranch s tr1 path of
                             (Inl e, tr2) \<Rightarrow> (Some (Exit (''Error: '' @ e @ nl)), tr2)
                           | (Inr branch, tr2) \<Rightarrow>
                               if branch \<noteq> Branch repo
                               then (Some (Exit (''Error: '' @ ID repo
                                        @ '' is checked out to the wrong branch'' @ nl)), tr2)
                               else
                                 (case pull s tr2 path of
                                    (Some e, tr3) \<Rightarrow>
                                      (Some (Exit (''Error pulling '' @ id @ '': '' @ e @ nl)), tr3)
                                  | (None, tr3) \<Rightarrow> (None, tr3))))
             in case checked of
                  (Some x, tr') \<Rightarrow> (Some x, tr')
                | (None, tr') \<Rightarrow>
                    (case registerHook s tr' token (ID repo) webhookURL of
                       (Failure e, tr'') \<Rightarrow> (Some (Exit (''Error: '' @ e @ nl)), tr'')
                     | (Panic e, tr'') \<Rightarrow> (Some (Crash e), tr'')
                     | (Success, tr'') \<Rightarrow> (None, tr''))))"

text \<open>The loop: the first entry that ends the program ends the loop.\<close>

fun reconcile :: "sys \<Rightarrow> action list \<Rightarrow> string \<Rightarrow> string \<Rightarrow> (string \<times> Repo) list \<Rightarrow> exit option \<times> action list" where
  "reconcile s tr token webhookURL [] = (None, tr)"
| "reconcile s tr token webhookURL (entry # config) =
     (case reconcileRepo s tr token webhookURL entry of
        (Some x, tr') \<Rightarrow> (Some x, tr')
      | (None, tr') \<Rightarrow> reconcile s tr' token webhookURL config)"

text \<open>
  \<^verbatim>\<open>main\<close>, after it has read \<^verbatim>\<open>GITHUB_TOKEN\<close>, \<^verbatim>\<open>EXTERNAL_URL\<close> and \<^verbatim>\<open>PORT\<close> from the
  environment: the three values are its arguments. It starts with an empty log.
\<close>

definition main :: "sys \<Rightarrow> string \<Rightarrow> string \<Rightarrow> string \<Rightarrow> exit \<times> action list" where
  "main s token webhookURL port =
     (case readConfig s [] (configFile s) of
        (Inl e, tr) \<Rightarrow> (Exit (''Error: '' @ e @ nl), tr)
      | (Inr config, tr) \<Rightarrow>
          (case reconcile s tr token webhookURL config of
             (Some x, tr') \<Rightarrow> (x, tr')
           | (None, tr') \<Rightarrow> (Listen ('':'' @ port), tr')))"

section \<open>Webhook delivery\<close>

text \<open>
  What the handler leaves on the connection: a status with a body, or nothing when it
  panics (\<^verbatim>\<open>net/http\<close> recovers the panic and drops the connection).
  \<^verbatim>\<open>http.Error(w, msg, code)\<close> writes the message and a newline under the given status;
  a first write without a status is a 200.
\<close>

datatype response = Respond int string | Panicked string

definition httpError :: "string \<Rightarrow> int \<Rightarrow> response" where
  "httpError msg code = Respond code (msg @ nl)"

definition stopCmd :: "string \<Rightarrow> string \<Rightarrow> cmd" where
  "stopCmd name path = \<lparr>prog = ''systemctl'', args = [''stop'', name], dir = path\<rparr>"

definition installCmd :: "string \<Rightarrow> string \<Rightarrow> cmd" where
  "installCmd script path = \<lparr>prog = ''bash'', args = [''-c'', script], dir = path\<rparr>"

definition reloadCmd :: "string \<Rightarrow> string \<Rightarrow> cmd" where
  "reloadCmd name path = \<lparr>prog = ''systemctl'', args = [''daemon-reload''], dir = path\<rparr>"

definition startCmd :: "string \<Rightarrow> string \<Rightarrow> cmd" where
  "startCmd name path = \<lparr>prog = ''systemctl'', args = [''start'', name], dir = path\<rparr>"

text \<open>
  A command run with its output sent to the process's own streams (\<^verbatim>\<open>cmd.Stdout =
  os.Stdout\<close>, \<^verbatim>\<open>cmd.Stderr = os.Stderr\<close>): the handler sees the error of \<^verbatim>\<open>cmd.Run\<close>
  and nothing of the output. \<open>Some r\<close> is the response the handler returns with.
\<close>

definition runStep :: "sys \<Rightarrow> action list \<Rightarrow> cmd \<Rightarrow> response option \<times> action list" where
  "runStep s tr c =
     (case exit_err (Run s tr c) of
        Some e \<Rightarrow> (Some (httpError e 500), tr @ [Exec c])
      | None \<Rightarrow> (None, tr @ [Exec c]))"

text \<open>
  The three blocks guarded by \<^verbatim>\<open>repo.Service.Name != ""\<close> (stop, reload, start), given
  the command each builds from the unit's name and the checkout. The guard reads through
  the pointer \<^verbatim>\<open>repo.Service\<close>.
\<close>

definition serviceStep :: "sys \<Rightarrow> action list \<Rightarrow> Repo \<Rightarrow> string \<Rightarrow> (string \<Rightarrow> string \<Rightarrow> cmd) \<Rightarrow> response option \<times> action list" where
  "serviceStep s tr repo path mk =
     (case Service repo of
        None \<Rightarrow> (Some (Panicked nilDeref), tr)
      | Some svc \<Rightarrow>
          if Name svc \<noteq> [] then runStep s tr (mk (Name svc) path) else (None, tr))"

definition installStep :: "sys \<Rightarrow> action list \<Rightarrow> Repo \<Rightarrow> string \<Rightarrow> response option \<times> action list" where
  "installStep s tr repo path =
     (if Install repo \<noteq> [] then runStep s tr (installCmd (Install repo) path) else (None, tr))"

text \<open>The handler from \<^verbatim>\<open>// Stop service\<close> to its last line.\<close>

definition deploy :: "sys \<Rightarrow> action list \<Rightarrow> Repo \<Rightarrow> string \<Rightarrow> int \<Rightarrow> response \<times> action list" where
  "deploy s tr repo path elapsed =
     (case serviceStep s tr repo path stopCmd of
        (Some r, tr1) \<Rightarrow> (r, tr1)
      | (None, tr1) \<Rightarrow>
     (case installStep s tr1 repo path of
        (Some r, tr2) \<Rightarrow> (r, tr2)
      | (None, tr2) \<Rightarrow>
     (case serviceStep s tr2 repo path reloadCmd of
        (Some r, tr3) \<Rightarrow> (r, tr3)
      | (None, tr3) \<Rightarrow>
     (case serviceStep s tr3 repo path startCmd of
        (Some r, tr4) \<Rightarrow> (r, tr4)
      | (None, tr4) \<Rightarrow>
          (Respond 200 (''ok in '' @ itoa elapsed @ '' ms'' @ nl), tr4)))))"

text \<open>
  For the statements below: the commands \<open>cs\<close>, run one after the other from the log
  \<open>tr\<close>, all end without an error.
\<close>

fun succeed :: "sys \<Rightarrow> action list \<Rightarrow> cmd list \<Rightarrow> bool" where
  "succeed s tr [] = True"
| "succeed s tr (c # cs) = (exit_err (Run s tr c) = None \<and> succeed s (tr @ [Exec c]) cs)"

text \<open>
  \<^verbatim>\<open>webhookHandler\<close> on the bytes of the request body; \<open>elapsed\<close> is what
  \<^verbatim>\<open>time.Since(start).Milliseconds()\<close> will read on the last line.
\<close>

definition webhookHandler :: "sys \<Rightarrow> action list \<Rightarrow> string \<Rightarrow> int \<Rightarrow> response \<times> action list" where
  "webhookHandler s tr payload elapsed =
     (case DecodeWebhookRequest s payload of
        Inl e \<Rightarrow> (httpError e 400, tr)
      | Inr req \<Rightarrow>
          (case readConfig s tr (configFile s) of
             (Inl e, tr0) \<Rightarrow> (httpError e 500, tr0)
           | (Inr repos, tr0) \<Rightarrow>
               (case Repository req of
                  None \<Rightarrow> (Panicked nilDeref, tr0)
                | Some gr \<Rightarrow>
                    (let repoID = FullName gr
                     in case map_of repos repoID of
                          None \<Rightarrow> (httpError (''repo '' @ repoID @ '' not configured'') 400, tr0)
                        | Some repo \<Rightarrow>
                            (let path = Join s (HomeDir s) (RepoName gr)
                             in case pull s tr0 path of
                                  (Some e, tr1) \<Rightarrow> (httpError e 500, tr1)
                                | (None, tr1) \<Rightarrow> deploy s tr1 repo path elapsed)))))"


section \<open>Example environments\<close>

text \<open>
  A host with the home directory \<^verbatim>\<open>/home/u\<close> whose \<^verbatim>\<open>repos.json\<close> configures the
  repository \<^verbatim>\<open>a/b\<close> on the branch \<^verbatim>\<open>main\<close>, installed with \<^verbatim>\<open>make build\<close> and run
  as the unit \<^verbatim>\<open>svc\<close>. The checkout exists, every command succeeds, and GitHub lists
  no hook until one has been created. The library functions are given on the inputs
  the examples use.
\<close>

definition isSpace :: "char \<Rightarrow> bool" where
  "isSpace c = (c = CHR '' '' \<or> c = CHR 0x09 \<or> c = CHR 0x0A \<or> c = CHR 0x0D)"

definition trimASCII :: "string \<Rightarrow> string" where
  "trimASCII x = rev (dropWhile isSpace (rev (dropWhile isSpace x)))"

definition quote :: "string \<Rightarrow> string" where
  "quote x = CHR 0x22 # x @ [CHR 0x22]"

definition pushBody :: "string \<Rightarrow> string \<Rightarrow> string" where
  "pushBody name full =
     ''{'' @ quote ''repository'' @ '':{'' @ quote ''name'' @ '':'' @ quote name @ '',''
       @ quote ''full_name'' @ '':'' @ quote full @ ''}}''"

definition demoService :: SystemdService where
  "demoService =
     \<lparr>Name = ''svc'', Env = [], Start = ''/home/u/b/b'', User = ''u'', Dir = ''/home/u/b''\<rparr>"

definition demoRepo :: Repo where
  "demoRepo =
     \<lparr>ID = ''a/b'', Branch = ''main'', Install = ''make build'', Service = Some demoService\<rparr>"

definition demoURL :: string where
  "demoURL = ''https://ci.example/hook''"

definition isCreate :: "action \<Rightarrow> bool" where
  "isCreate a = (case a of Http r \<Rightarrow> Method r = ''POST'' | _ \<Rightarrow> False)"

definition ok :: "string \<Rightarrow> proc_result" where
  "ok out = \<lparr>exit_err = None, stdout = out, stderr = [], combined = out\<rparr>"

definition demo :: sys where
  "demo =
     \<lparr>HomeDir = ''/home/u'',
      Join = (\<lambda>a b. a @ ''/'' @ b),
      TrimSpace = trimASCII,
      DecodeRepos = (\<lambda>content. Inr [(''a/b'', demoRepo)]),
      DecodeHooks = (\<lambda>b. if b = ''[]'' then Inr []
                          else if b = ''[web]'' then Inr [newHook demoURL]
                          else Inl ''invalid character''),
      DecodeWebhookRequest = (\<lambda>b.
         if b = ''{}'' then Inr \<lparr>Repository = None\<rparr>
         else if b = pushBody ''b'' ''a/b''
           then Inr \<lparr>Repository = Some \<lparr>RepoName = ''b'', FullName = ''a/b''\<rparr>\<rparr>
         else if b = pushBody ''y'' ''x/y''
           then Inr \<lparr>Repository = Some \<lparr>RepoName = ''y'', FullName = ''x/y''\<rparr>\<rparr>
         else Inl ''unexpected end of JSON input''),
      Marshal = (\<lambda>h. Inr ''web''),
      NewRequest = (\<lambda>m u. None),
      os_Stat = (\<lambda>tr p. StatInfo True),
      os_Open = (\<lambda>tr p. Inr ''repos''),
      Run = (\<lambda>tr c. ok (''main'' @ nl)),
      Do = (\<lambda>tr r.
         if Method r = ''GET''
         then Inr \<lparr>StatusCode = 200,
                   ResponseBody = (if list_ex isCreate tr then ''[web]'' else ''[]'')\<rparr>
         else Inr \<lparr>StatusCode = 201, ResponseBody = ''{}''\<rparr>)\<rparr>"

text \<open>The same host before the checkout of \<^verbatim>\<open>a/b\<close> exists.\<close>

definition absent :: sys where
  "absent = demo\<lparr>os_Stat := (\<lambda>tr p. StatNotExist (''stat '' @ p @ '': no such file or directory''))\<rparr>"

text \<open>The same host when the checkout cannot be examined.\<close>

definition denied :: sys where
  "denied = demo\<lparr>os_Stat := (\<lambda>tr p. StatError (''stat '' @ p @ '': permission denied''))\<rparr>"

text \<open>The same host with the checkout on the branch \<^verbatim>\<open>dev\<close>.\<close>

definition onDev :: sys where
  "onDev = demo\<lparr>Run := (\<lambda>tr c. ok (''dev'' @ nl))\<rparr>"

text \<open>The same host with a configuration that gives \<^verbatim>\<open>a/b\<close> no service.\<close>

definition noService :: sys where
  "noService = demo\<lparr>DecodeRepos := (\<lambda>content. Inr [(''a/b'', demoRepo\<lparr>Service := None\<rparr>)])\<rparr>"

text \<open>The same host when the install command fails after writing to its output.\<close>

definition brokenBuild :: sys where
  "brokenBuild =
     demo\<lparr>Run := (\<lambda>tr c.
        if prog c = ''bash''
        then \<lparr>exit_err = Some ''exit status 2'', stdout = [],
              stderr = ''make: *** No rule to make target'',
              combined = ''make: *** No rule to make target''\<rparr>
        else ok [])\<rparr>"

text \<open>The same host when GitHub refuses to create the hook.\<close>

definition refused :: sys where
  "refused =
     demo\<lparr>Do := (\<lambda>tr r.
        if Method r = ''GET'' then Inr \<lparr>StatusCode = 200, ResponseBody = ''[]''\<rparr>
        else Inr \<lparr>StatusCode = 422, ResponseBody = '' Validation Failed'' @ nl\<rparr>)\<rparr>"

section \<open>Facts about the model\<close>

lemma readConfig_log: "snd (readConfig s tr p) = tr @ [Open p]"
  by (simp add: readConfig_def split: sum.splits)

lemma handler_configured:
  assumes "DecodeWebhookRequest s payload = Inr req"
    and "Repository req = Some gr"
    and "readConfig s tr (configFile s) = (Inr repos, tr0)"
    and "map_of repos (FullName gr) = Some repo"
  shows "webhookHandler s tr payload elapsed =
           (case pull s (tr @ [Open (configFile s)]) (Join s (HomeDir s) (RepoName gr)) of
              (Some e, tr1) \<Rightarrow> (httpError e 500, tr1)
            | (None, tr1) \<Rightarrow> deploy s tr1 repo (Join s (HomeDir s) (RepoName gr)) elapsed)"
proof -
  have "tr0 = tr @ [Open (configFile s)]"
    using assms(3) readConfig_log [of s tr "configFile s"] by simp
  with assms show ?thesis
    by (simp add: webhookHandler_def Let_def)
qed


lemma deploy_until_install:
  assumes "Service repo = Some svc" and "Install repo \<noteq> []"
    and "succeed s tr (if Name svc \<noteq> [] then [stopCmd (Name svc) path] else [])"
    and "before = tr @ (if Name svc \<noteq> [] then [Exec (stopCmd (Name svc) path)] else [])"
    and "exit_err (Run s before (installCmd (Install repo) path)) = Some e"
  shows "deploy s tr repo path elapsed =
           (Respond 500 (e @ nl), before @ [Exec (installCmd (Install repo) path)])"
  using assms
  by (simp add: deploy_def serviceStep_def installStep_def runStep_def httpError_def
      split: if_splits)

text \<open>
  With a service whose unit name is empty the handler runs the pull and the install
  command and no \<^verbatim>\<open>systemctl\<close>.
\<close>

lemma deploy_unnamed_service:
  assumes "Service repo = Some svc" and "Name svc = []"
  shows "deploy s tr repo path elapsed =
           (case installStep s tr repo path of
              (Some r, tr') \<Rightarrow> (r, tr')
            | (None, tr') \<Rightarrow> (Respond 200 (''ok in '' @ itoa elapsed @ '' ms'' @ nl), tr'))"
  using assms by (simp add: deploy_def serviceStep_def split: prod.splits option.splits)





lemma registerHook_listed:
  assumes "NewRequest s ''GET'' (apiURL repoID) = None"
    and "Do s tr (listRequest ghToken repoID) = Inr res"
    and "DecodeHooks s (ResponseBody res) = Inr hooks"
  shows "registerHook s tr ghToken repoID webhookURL =
           (case scanHooks webhookURL hooks of
              NilConfig \<Rightarrow> (Panic nilDeref, tr @ [Http (listRequest ghToken repoID)])
            | Registered \<Rightarrow> (Success, tr @ [Http (listRequest ghToken repoID)])
            | Missing \<Rightarrow>
                createHook s (tr @ [Http (listRequest ghToken repoID)]) ghToken repoID webhookURL)"
  using assms by (simp add: registerHook_def Let_def)


lemma createHook_answered:
  assumes "Marshal s (newHook webhookURL) = Inr payload"
    and "NewRequest s ''POST'' (apiURL repoID) = None"
    and "Do s tr (createRequest ghToken repoID payload) = Inr res"
  shows "fst (createHook s tr ghToken repoID webhookURL) =
           (if StatusCode res \<noteq> 201
            then Failure (itoa (StatusCode res) @ '': '' @ TrimSpace s (ResponseBody res))
            else Success)"
  using assms by (simp add: createHook_def Let_def)

lemma reconcile_append:
  "reconcile s tr token webhookURL (pre @ rest) =
     (case reconcile s tr token webhookURL pre of
        (Some x, tr') \<Rightarrow> (Some x, tr')
      | (None, tr') \<Rightarrow> reconcile s tr' token webhookURL rest)"
  by (induction pre arbitrary: tr) (auto split: prod.splits option.splits)

lemma reconcileRepo_wrong_branch:
  assumes "Split key CHR ''/'' = p # name # ps"
    and "path = Join s (HomeDir s) name"
    and "os_Stat s tr path = StatInfo True"
    and "exit_err (Run s (tr @ [Stat path]) (getBranchCmd path)) = None"
    and "TrimSpace s (stdout (Run s (tr @ [Stat path]) (getBranchCmd path))) \<noteq> Branch repo"
  shows "reconcileRepo s tr token webhookURL (key, repo) =
           (Some (Exit (''Error: '' @ ID repo @ '' is checked out to the wrong branch'' @ nl)),
            tr @ [Stat path, Exec (getBranchCmd path)])"
  using assms by (simp add: reconcileRepo_def getBranch_def Let_def)

text \<open>
  The two branches that \<^verbatim>\<open>main\<close> takes when \<^verbatim>\<open>os.Stat\<close> fails, for every
  environment: a not-exist error ends the program after the stat, any other error is
  followed by \<^verbatim>\<open>git clone\<close>.
\<close>

lemma createHook_extends: "\<exists>rest. snd (createHook s tr ghToken repoID webhookURL) = tr @ rest"
  by (simp add: createHook_def Let_def split: sum.splits option.splits)

lemma registerHook_extends: "\<exists>rest. snd (registerHook s tr ghToken repoID webhookURL) = tr @ rest"
proof -
  obtain rest where
    "snd (createHook s (tr @ [Http (listRequest ghToken repoID)]) ghToken repoID webhookURL)
       = (tr @ [Http (listRequest ghToken repoID)]) @ rest"
    using createHook_extends by blast
  then show ?thesis
    by (simp add: registerHook_def Let_def split: sum.splits option.splits scan.splits)
qed

lemma reconcileRepo_not_exist:
  assumes "Split key CHR ''/'' = p # name # ps"
    and "os_Stat s tr (Join s (HomeDir s) name) = StatNotExist e"
  shows "reconcileRepo s tr token webhookURL (key, repo) =
           (Some (Exit (e @ nl)), tr @ [Stat (Join s (HomeDir s) name)])"
  using assms by (simp add: reconcileRepo_def Let_def)

lemma reconcileRepo_stat_error:
  assumes "Split key CHR ''/'' = p # name # ps"
    and "path = Join s (HomeDir s) name"
    and "os_Stat s tr path = StatError e"
  shows "\<exists>rest. snd (reconcileRepo s tr token webhookURL (key, repo)) =
           tr @ Stat path
             # Exec (cloneCmd path (''https://github.com/'' @ key @ ''.git'') (Branch repo))
             # rest"
proof -
  let ?c = "cloneCmd path (''https://github.com/'' @ key @ ''.git'') (Branch repo)"
  obtain rest where
    "snd (registerHook s (tr @ [Stat path, Exec ?c]) token (ID repo) webhookURL)
       = (tr @ [Stat path, Exec ?c]) @ rest"
    using registerHook_extends by blast
  then show ?thesis
    using assms
    by (cases "registerHook s (tr @ [Stat path, Exec ?c]) token (ID repo) webhookURL")
       (auto simp: reconcileRepo_def clone_def Let_def split: option.splits ret.splits)
qed

section \<open>Startup, webhook registration and delivery: the claims\<close>


text \<open>
  C1. The claim: a configured repository whose local path does not exist is cloned by the
  startup pass. The code at that input: with \<^verbatim>\<open>a/b\<close> configured and \<^verbatim>\<open>/home/u/b\<close>
  absent, \<^verbatim>\<open>os.Stat\<close> fails with a not-exist error, \<^verbatim>\<open>main\<close> prints that error and
  returns; no \<^verbatim>\<open>git clone\<close> is run and no hook is registered.
\<close>

theorem absent_checkout_not_cloned:
  "main absent ''t0ken'' demoURL ''2067'' =
     (Exit (''stat /home/u/b: no such file or directory'' @ nl),
      [Open ''/home/u/repos.json'', Stat ''/home/u/b''])"
  by (simp add: main_def readConfig_def configFile_def reconcileRepo_def absent_def demo_def demoRepo_def demoService_def demoURL_def ok_def isCreate_def pushBody_def quote_def
      trimASCII_def isSpace_def)

text \<open>
  C2. The claim: for a repository with no configured service the handler pulls, installs
  and answers with success. The code at that input: with no service configured for
  \<^verbatim>\<open>a/b\<close>, the handler pulls and then panics when it reads \<^verbatim>\<open>repo.Service.Name\<close>;
  the install command is not run and no response is written.
\<close>

theorem missing_service_panics:
  "webhookHandler noService [] (pushBody ''b'' ''a/b'') 12 =
     (Panicked nilDeref, [Open ''/home/u/repos.json'', Exec (pullCmd ''/home/u/b'')])"
  by (simp add: webhookHandler_def readConfig_def configFile_def pull_def deploy_def
      serviceStep_def Let_def noService_def demo_def demoRepo_def demoService_def demoURL_def ok_def isCreate_def pushBody_def quote_def
      trimASCII_def isSpace_def)



text \<open>
  C4, as stated: when the install step fails, the error text sent to the caller is the
  install step's captured output. It is not: the handler sends the install command's
  output to the process's own streams and answers with the text of the error of
  \<^verbatim>\<open>cmd.Run\<close>. Here the command writes \<^verbatim>\<open>make: *** No rule to make target\<close> and the
  caller reads \<^verbatim>\<open>exit status 2\<close>.
\<close>

theorem install_output_not_reported:
  "fst (webhookHandler brokenBuild [] (pushBody ''b'' ''a/b'') 12)
     = Respond 500 (''exit status 2'' @ nl)
   \<and> combined (Run brokenBuild
        [Open ''/home/u/repos.json'', Exec (pullCmd ''/home/u/b''),
         Exec (stopCmd ''svc'' ''/home/u/b'')]
        (installCmd ''make build'' ''/home/u/b'')) = ''make: *** No rule to make target''
   \<and> fst (webhookHandler brokenBuild [] (pushBody ''b'' ''a/b'') 12)
     \<noteq> Respond 500 (combined (Run brokenBuild
        [Open ''/home/u/repos.json'', Exec (pullCmd ''/home/u/b''),
         Exec (stopCmd ''svc'' ''/home/u/b'')]
        (installCmd ''make build'' ''/home/u/b'')) @ nl)"
  by (simp add: webhookHandler_def readConfig_def configFile_def pull_def deploy_def
      serviceStep_def installStep_def runStep_def httpError_def Let_def pullCmd_def stopCmd_def installCmd_def reloadCmd_def startCmd_def
      brokenBuild_def demo_def demoRepo_def demoService_def demoURL_def ok_def isCreate_def pushBody_def quote_def
      trimASCII_def isSpace_def)

text \<open>
  C4, amended: when the install step is reached (the pull has succeeded, and so has the
  stop when the unit has a name) and fails, the handler runs nothing after it, neither
  the reload nor the start, and answers 500 with the text of the error that running the
  install command returned, followed by a newline.
\<close>

theorem install_failure_short_circuits:
  fixes s tr payload elapsed gr svc repo
  defines "path \<equiv> Join s (HomeDir s) (RepoName gr)"
  defines "early \<equiv> pullCmd path # (if Name svc \<noteq> [] then [stopCmd (Name svc) path] else [])"
  defines "H \<equiv> webhookHandler s tr payload elapsed"
  assumes "DecodeWebhookRequest s payload = Inr req"
    and "Repository req = Some gr"
    and "readConfig s tr (configFile s) = (Inr repos, tr0)"
    and "map_of repos (FullName gr) = Some repo"
    and "Service repo = Some svc" and "Install repo \<noteq> []"
    and "succeed s (tr @ [Open (configFile s)]) early"
    and "exit_err (Run s (tr @ Open (configFile s) # map Exec early)
                     (installCmd (Install repo) path)) = Some e"
  shows "H = (Respond 500 (e @ nl),
              tr @ Open (configFile s) # map Exec (early @ [installCmd (Install repo) path]))
       \<and> Exec (reloadCmd (Name svc) path) \<notin> set (drop (length tr) (snd H))
       \<and> Exec (startCmd (Name svc) path) \<notin> set (drop (length tr) (snd H))"
proof -
  let ?t0 = "tr @ [Open (configFile s)]"
  have pull_ok: "exit_err (Run s ?t0 (pullCmd path)) = None"
    using assms(10) by (simp add: early_def)
  have H1: "H = deploy s (?t0 @ [Exec (pullCmd path)]) repo path elapsed"
    unfolding H_def handler_configured [OF assms(4-7)] path_def [symmetric]
    using pull_ok by (simp add: pull_def Let_def)
  have H2: "H = (Respond 500 (e @ nl),
              tr @ Open (configFile s) # map Exec (early @ [installCmd (Install repo) path]))"
    unfolding H1
    using assms(10,11)
    by (subst deploy_until_install [OF assms(8,9), where e = e])
       (simp_all add: early_def split: if_splits)
  show ?thesis
    unfolding H2
    by (auto simp: early_def pullCmd_def stopCmd_def installCmd_def reloadCmd_def startCmd_def)
qed

theorem install_failure_short_circuits_witness:
  "DecodeWebhookRequest brokenBuild (pushBody ''b'' ''a/b'')
     = Inr \<lparr>Repository = Some \<lparr>RepoName = ''b'', FullName = ''a/b''\<rparr>\<rparr>
   \<and> readConfig brokenBuild [] (configFile brokenBuild)
       = (Inr [(''a/b'', demoRepo)], [Open ''/home/u/repos.json''])
   \<and> Service demoRepo = Some demoService \<and> Install demoRepo \<noteq> []
   \<and> succeed brokenBuild [Open ''/home/u/repos.json'']
        [pullCmd ''/home/u/b'', stopCmd ''svc'' ''/home/u/b'']
   \<and> exit_err (Run brokenBuild
        [Open ''/home/u/repos.json'', Exec (pullCmd ''/home/u/b''),
         Exec (stopCmd ''svc'' ''/home/u/b'')]
        (installCmd ''make build'' ''/home/u/b'')) = Some ''exit status 2''
   \<and> webhookHandler brokenBuild [] (pushBody ''b'' ''a/b'') 12 =
       (Respond 500 (''exit status 2'' @ nl),
        [Open ''/home/u/repos.json'', Exec (pullCmd ''/home/u/b''),
         Exec (stopCmd ''svc'' ''/home/u/b''), Exec (installCmd ''make build'' ''/home/u/b'')])"
  using install_failure_short_circuits [where s = brokenBuild and tr = "[]"
      and payload = "pushBody ''b'' ''a/b''"
      and req = "\<lparr>Repository = Some \<lparr>RepoName = ''b'', FullName = ''a/b''\<rparr>\<rparr>"
      and gr = "\<lparr>RepoName = ''b'', FullName = ''a/b''\<rparr>"
      and repos = "[(''a/b'', demoRepo)]" and ?tr0.0 = "[Open ''/home/u/repos.json'']"
      and repo = demoRepo and svc = demoService and elapsed = 12 and e = "''exit status 2''"]
  by (simp add: readConfig_def configFile_def pullCmd_def stopCmd_def installCmd_def reloadCmd_def startCmd_def
      brokenBuild_def demo_def demoRepo_def demoService_def demoURL_def ok_def isCreate_def pushBody_def quote_def
      trimASCII_def isSpace_def)

text \<open>
  C5. When the startup pass comes to a configured repository whose local path is a
  directory and a git checkout on a branch other than the configured one, \<^verbatim>\<open>main\<close>
  prints that the repository is checked out to the wrong branch and returns: after the
  stat and the branch query it runs nothing, no pull for this repository, no hook
  registration, no later repository, and it does not start to serve.
\<close>

theorem wrong_branch_aborts:
  fixes s name
  defines "path \<equiv> Join s (HomeDir s) name"
  assumes "readConfig s [] (configFile s) = (Inr (pre @ (key, repo) # post), tr0)"
    and "reconcile s tr0 token webhookURL pre = (None, tr)"
    and "Split key CHR ''/'' = p # name # ps"
    and "os_Stat s tr path = StatInfo True"
    and "exit_err (Run s (tr @ [Stat path]) (getBranchCmd path)) = None"
    and "TrimSpace s (stdout (Run s (tr @ [Stat path]) (getBranchCmd path))) \<noteq> Branch repo"
  shows "main s token webhookURL port =
           (Exit (''Error: '' @ ID repo @ '' is checked out to the wrong branch'' @ nl),
            tr @ [Stat path, Exec (getBranchCmd path)])"
proof -
  have "reconcile s tr0 token webhookURL (pre @ (key, repo) # post) =
          (Some (Exit (''Error: '' @ ID repo @ '' is checked out to the wrong branch'' @ nl)),
           tr @ [Stat path, Exec (getBranchCmd path)])"
    unfolding reconcile_append
    using assms(3)
      reconcileRepo_wrong_branch [OF assms(4) path_def [THEN meta_eq_to_obj_eq] assms(5-7)]
    by simp
  then show ?thesis
    using assms(2) by (simp add: main_def)
qed

theorem wrong_branch_aborts_witness:
  "readConfig onDev [] (configFile onDev)
     = (Inr ([] @ (''a/b'', demoRepo) # []), [Open ''/home/u/repos.json''])
   \<and> reconcile onDev [Open ''/home/u/repos.json''] ''t0ken'' demoURL []
       = (None, [Open ''/home/u/repos.json''])
   \<and> Split ''a/b'' CHR ''/'' = ''a'' # ''b'' # []
   \<and> os_Stat onDev [Open ''/home/u/repos.json''] ''/home/u/b'' = StatInfo True
   \<and> exit_err (Run onDev [Open ''/home/u/repos.json'', Stat ''/home/u/b'']
        (getBranchCmd ''/home/u/b'')) = None
   \<and> TrimSpace onDev (stdout (Run onDev [Open ''/home/u/repos.json'', Stat ''/home/u/b'']
        (getBranchCmd ''/home/u/b''))) = ''dev''
   \<and> Branch demoRepo = ''main''
   \<and> main onDev ''t0ken'' demoURL ''2067'' =
       (Exit (''Error: a/b is checked out to the wrong branch'' @ nl),
        [Open ''/home/u/repos.json'', Stat ''/home/u/b'', Exec (getBranchCmd ''/home/u/b'')])"
  using wrong_branch_aborts [where s = onDev and pre = "[]" and key = "''a/b''"
      and repo = demoRepo and post = "[]" and ?tr0.0 = "[Open ''/home/u/repos.json'']"
      and token = "''t0ken''" and webhookURL = demoURL and tr = "[Open ''/home/u/repos.json'']"
      and p = "''a''" and name = "''b''" and ps = "[]" and port = "''2067''"]
  by (simp add: readConfig_def configFile_def onDev_def demo_def demoRepo_def demoService_def demoURL_def ok_def isCreate_def pushBody_def quote_def
      trimASCII_def isSpace_def nl_def)

text \<open>
  C6. The claim: a stat error other than not-found is fatal, and neither clone nor pull
  is attempted. The code at that input: with \<^verbatim>\<open>a/b\<close> configured and \<^verbatim>\<open>os.Stat\<close> failing
  with permission denied, \<^verbatim>\<open>main\<close> runs \<^verbatim>\<open>git clone\<close> into the path, registers the
  hook and goes on to serve.
\<close>

theorem stat_failure_clones:
  "main denied ''t0ken'' demoURL ''2067'' =
     (Listen '':2067'',
      [Open ''/home/u/repos.json'', Stat ''/home/u/b'',
       Exec \<lparr>prog = ''git'',
             args = [''clone'', ''--branch'', ''main'', ''--single-branch'',
                     ''https://github.com/a/b.git'', ''/home/u/b''],
             dir = []\<rparr>,
       Http (listRequest ''t0ken'' ''a/b''),
       Http (createRequest ''t0ken'' ''a/b'' ''web'')])"
  by (simp add: main_def readConfig_def configFile_def reconcileRepo_def clone_def
      registerHook_def createHook_def Let_def apiURL_def listRequest_def createRequest_def
      cloneCmd_def cloneArgs_def denied_def demo_def demoRepo_def demoService_def demoURL_def ok_def isCreate_def pushBody_def quote_def
      trimASCII_def isSpace_def)



text \<open>
  C8. A delivery whose payload names a repository that the configuration, read anew for
  this delivery, does not contain is answered with 400 and the text
  \<^verbatim>\<open>repo <full name> not configured\<close>; apart from reading the configuration file the
  handler does nothing: it runs no command, so no pull, no install and no \<^verbatim>\<open>systemctl\<close>.
\<close>

theorem unknown_repository_rejected:
  assumes "DecodeWebhookRequest s payload = Inr req"
    and "Repository req = Some gr"
    and "readConfig s tr (configFile s) = (Inr repos, tr0)"
    and "map_of repos (FullName gr) = None"
  shows "webhookHandler s tr payload elapsed =
           (Respond 400 (''repo '' @ FullName gr @ '' not configured'' @ nl),
            tr @ [Open (configFile s)])"
proof -
  have "tr0 = tr @ [Open (configFile s)]"
    using assms(3) readConfig_log [of s tr "configFile s"] by simp
  with assms show ?thesis
    by (simp add: webhookHandler_def httpError_def)
qed

theorem unknown_repository_rejected_witness:
  "DecodeWebhookRequest demo (pushBody ''y'' ''x/y'')
     = Inr \<lparr>Repository = Some \<lparr>RepoName = ''y'', FullName = ''x/y''\<rparr>\<rparr>
   \<and> readConfig demo [] (configFile demo)
       = (Inr [(''a/b'', demoRepo)], [Open ''/home/u/repos.json''])
   \<and> map_of [(''a/b'', demoRepo)] ''x/y'' = None
   \<and> webhookHandler demo [] (pushBody ''y'' ''x/y'') 12 =
       (Respond 400 (''repo x/y not configured'' @ nl), [Open ''/home/u/repos.json''])"
  using unknown_repository_rejected [where s = demo and tr = "[]"
      and payload = "pushBody ''y'' ''x/y''"
      and req = "\<lparr>Repository = Some \<lparr>RepoName = ''y'', FullName = ''x/y''\<rparr>\<rparr>"
      and gr = "\<lparr>RepoName = ''y'', FullName = ''x/y''\<rparr>"
      and repos = "[(''a/b'', demoRepo)]" and ?tr0.0 = "[Open ''/home/u/repos.json'']"
      and elapsed = 12]
  by (simp add: readConfig_def configFile_def demo_def demoRepo_def demoService_def demoURL_def ok_def isCreate_def pushBody_def quote_def
      trimASCII_def isSpace_def)

text \<open>
  C9. When \<^verbatim>\<open>registerHook\<close> has sent the create request and received a response,
  it returns success if the status is 201, and otherwise an error whose text is the
  status code, a colon and a space, and the response body with surrounding white space
  trimmed.
\<close>

theorem createHook_status_checked:
  assumes "NewRequest s ''GET'' (apiURL repoID) = None"
    and "Do s tr (listRequest ghToken repoID) = Inr listed"
    and "DecodeHooks s (ResponseBody listed) = Inr hooks"
    and "scanHooks webhookURL hooks = Missing"
    and "Marshal s (newHook webhookURL) = Inr payload"
    and "NewRequest s ''POST'' (apiURL repoID) = None"
    and "Do s (tr @ [Http (listRequest ghToken repoID)]) (createRequest ghToken repoID payload)
           = Inr res"
  shows "fst (registerHook s tr ghToken repoID webhookURL) =
           (if StatusCode res \<noteq> 201
            then Failure (itoa (StatusCode res) @ '': '' @ TrimSpace s (ResponseBody res))
            else Success)"
  unfolding registerHook_listed [OF assms(1-3)] using assms(4)
  by (simp add: createHook_answered [OF assms(5-7)])

theorem createHook_status_checked_witness:
  "NewRequest refused ''GET'' (apiURL ''a/b'') = None
   \<and> Do refused [] (listRequest ''t0ken'' ''a/b'') = Inr \<lparr>StatusCode = 200, ResponseBody = ''[]''\<rparr>
   \<and> DecodeHooks refused ''[]'' = Inr []
   \<and> scanHooks demoURL [] = Missing
   \<and> Marshal refused (newHook demoURL) = Inr ''web''
   \<and> NewRequest refused ''POST'' (apiURL ''a/b'') = None
   \<and> Do refused [Http (listRequest ''t0ken'' ''a/b'')] (createRequest ''t0ken'' ''a/b'' ''web'')
       = Inr \<lparr>StatusCode = 422, ResponseBody = '' Validation Failed'' @ nl\<rparr>
   \<and> fst (registerHook refused [] ''t0ken'' ''a/b'' demoURL) = Failure ''422: Validation Failed''"
  using createHook_status_checked [where s = refused and repoID = "''a/b''" and tr = "[]"
      and ghToken = "''t0ken''"
      and listed = "\<lparr>StatusCode = 200, ResponseBody = ''[]''\<rparr>" and hooks = "[]"
      and webhookURL = demoURL and payload = "''web''"
      and res = "\<lparr>StatusCode = 422, ResponseBody = '' Validation Failed'' @ nl\<rparr>"]
  by (simp add: apiURL_def listRequest_def createRequest_def itoa_def digits.simps nl_def refused_def demo_def demoRepo_def demoService_def demoURL_def ok_def isCreate_def pushBody_def quote_def
      trimASCII_def isSpace_def)

text \<open>
  C10. A body that \<^verbatim>\<open>encoding/json\<close> decodes without an error into a request whose
  \<^verbatim>\<open>Repository\<close> is nil, as it does the body \<^verbatim>\<open>{}\<close>, is never answered with 400: when
  the configuration can be read the handler panics on \<^verbatim>\<open>req.Repository.FullName\<close> and
  writes no response.
\<close>

theorem nil_repository_never_400:
  assumes "DecodeWebhookRequest s payload = Inr req"
    and "Repository req = None"
  shows "(\<forall>b. fst (webhookHandler s tr payload elapsed) \<noteq> Respond 400 b)
       \<and> (\<forall>repos. fst (readConfig s tr (configFile s)) = Inr repos \<longrightarrow>
            webhookHandler s tr payload elapsed
              = (Panicked nilDeref, tr @ [Open (configFile s)]))"
proof -
  obtain r tr0 where rc: "readConfig s tr (configFile s) = (r, tr0)"
    by (cases "readConfig s tr (configFile s)")
  have tr0: "tr0 = tr @ [Open (configFile s)]"
    using rc readConfig_log [of s tr "configFile s"] by simp
  show ?thesis
    using assms rc tr0
    by (cases r) (simp_all add: webhookHandler_def httpError_def)
qed

theorem nil_repository_never_400_witness:
  "DecodeWebhookRequest demo ''{}'' = Inr \<lparr>Repository = None\<rparr>
   \<and> fst (readConfig demo [] (configFile demo)) = Inr [(''a/b'', demoRepo)]
   \<and> webhookHandler demo [] ''{}'' 12 = (Panicked nilDeref, [Open ''/home/u/repos.json''])"
  using nil_repository_never_400 [where s = demo and payload = "''{}''"
      and req = "\<lparr>Repository = None\<rparr>" and tr = "[]" and elapsed = 12]
  by (simp add: readConfig_def configFile_def demo_def demoRepo_def demoService_def demoURL_def ok_def isCreate_def pushBody_def quote_def
      trimASCII_def isSpace_def)

end
